theory Spec2Isabelle
  imports Complex_Main "HOL-Library.Multiset" "HOL-Library.Sublist"
begin

section \<open>Python and pandas primitives used by the notebook\<close>

text \<open>
  The verified program is the notebook \<^verbatim>\<open>mining_pd_genetics_imaging_1.ipynb\<close>.
  Its own code is dataframe glue around calls of the external tool PLINK. Each
  primitive of Python or pandas that a cell uses is written out here as a HOL
  function; the cells follow in the order of the notebook.
\<close>

subsection \<open>\<^verbatim>\<open>str.replace\<close>\<close>

text \<open>
  \<^verbatim>\<open>s.replace(old, new)\<close> scans \<^verbatim>\<open>s\<close> from the left and replaces every
  non-overlapping occurrence of \<^verbatim>\<open>old\<close>; it never raises. With an empty
  \<^verbatim>\<open>old\<close> Python inserts \<^verbatim>\<open>new\<close> before every character and at the end.
\<close>

fun py_replace :: "string \<Rightarrow> string \<Rightarrow> string \<Rightarrow> string" where
  "py_replace old new [] = (if old = [] then new else [])"
| "py_replace old new (c # cs) =
     (if old = [] then new @ c # py_replace old new cs
      else if take (length old) (c # cs) = old
        then new @ py_replace old new (drop (length old) (c # cs))
      else c # py_replace old new cs)"

subsection \<open>\<^verbatim>\<open>str\<close> of an integer\<close>

definition digit_char :: "nat \<Rightarrow> char" where
  "digit_char d = ''0123456789'' ! d"

function digits :: "nat \<Rightarrow> string" where
  "digits n = (if n < 10 then [digit_char n] else digits (n div 10) @ [digit_char (n mod 10)])"
  by pat_completeness auto
termination
  by (relation "measure id") auto

definition str_int :: "int \<Rightarrow> string" where
  "str_int i = (if i < 0 then CHR ''-'' # digits (nat (- i)) else digits (nat i))"

subsection \<open>Boolean-mask row selection\<close>

text \<open>
  \<^verbatim>\<open>df[mask]\<close> keeps the rows whose mask entry is true, in the order of the frame.
  Every mask of the notebook is computed from the frame it selects from, so mask and
  frame have the same index; \<open>filter_stage\<close> is that use, with the mask computed
  row by row from a predicate.
\<close>

definition bool_index :: "'a list \<Rightarrow> bool list \<Rightarrow> 'a list" where
  "bool_index df msk = map fst (filter snd (zip df msk))"

definition filter_stage :: "('a \<Rightarrow> bool) \<Rightarrow> 'a list \<Rightarrow> 'a list" where
  "filter_stage P df = bool_index df (map P df)"

subsection \<open>Written files\<close>

text \<open>
  A delimited text file is the list of its lines, each line the list of its fields.
  \<^verbatim>\<open>DataFrame.to_csv(..., index=False)\<close> writes the column names first unless
  \<^verbatim>\<open>header=False\<close> is passed (the default is \<^verbatim>\<open>header=True\<close>), then one line
  per row. The separator only separates the fields; no field of the notebook's lists
  contains it.
\<close>

type_synonym csv = "string list list"

definition to_csv :: "bool \<Rightarrow> string list \<Rightarrow> string list list \<Rightarrow> csv" where
  "to_csv header columns rows = (if header then [columns] else []) @ rows"

section \<open>Data model\<close>

text \<open>
  The chromosome column of a BIM file holds integer codes, or names when the file
  uses them; \<^verbatim>\<open>str(c)\<close> gives the label.
\<close>

datatype chrom_code = ChrInt int | ChrName string

fun py_str :: "chrom_code \<Rightarrow> string" where
  "py_str (ChrInt n) = str_int n"
| "py_str (ChrName s) = s"

text \<open>The six fields of a BIM line (one line per variant).\<close>

record bim_row =
  chrom :: chrom_code
  snp_id :: string
  cm :: string
  bp :: int
  a1 :: string
  a2 :: string

text \<open>
  The chromosome codes of the data model: the integers 0 (unknown) to 26, and the
  names X, Y, XY and MT.
\<close>

fun wf_chrom :: "chrom_code \<Rightarrow> bool" where
  "wf_chrom (ChrInt n) = (0 \<le> n \<and> n \<le> 26)"
| "wf_chrom (ChrName s) = (s = ''X'' \<or> s = ''Y'' \<or> s = ''XY'' \<or> s = ''MT'')"

section \<open>The interval file for liftover\<close>

text \<open>
  The position column is a pandas \<^verbatim>\<open>int64\<close> column: \<^verbatim>\<open>tmp_pos + 1\<close> wraps
  around at \<open>2\<^sup>6\<^sup>3\<close>.
\<close>

definition wrap_int64 :: "int \<Rightarrow> int" where
  "wrap_int64 i = (i + 2 ^ 63) mod 2 ^ 64 - 2 ^ 63"

definition in_int64 :: "int \<Rightarrow> bool" where
  "in_int64 i = (- (2 ^ 63) \<le> i \<and> i < 2 ^ 63)"

definition tmp_chr_str :: "bim_row list \<Rightarrow> string list" where
  "tmp_chr_str immuno_bim = map (\<lambda>c. concat [''chr'', py_str c]) (map chrom immuno_bim)"

definition tmp_chr_str2 :: "bim_row list \<Rightarrow> string list" where
  "tmp_chr_str2 immuno_bim = map (py_replace ''23'' ''X'') (tmp_chr_str immuno_bim)"

definition tmp_chr_str3 :: "bim_row list \<Rightarrow> string list" where
  "tmp_chr_str3 immuno_bim = map (py_replace ''24'' ''Y'') (tmp_chr_str2 immuno_bim)"

definition tmp_chr_str4 :: "bim_row list \<Rightarrow> string list" where
  "tmp_chr_str4 immuno_bim = map (py_replace ''25'' ''X'') (tmp_chr_str3 immuno_bim)"

definition tmp_chr_str5 :: "bim_row list \<Rightarrow> string list" where
  "tmp_chr_str5 immuno_bim = map (py_replace ''26'' ''MT'') (tmp_chr_str4 immuno_bim)"

text \<open>
  \<^verbatim>\<open>pd.concat([...], axis=1)\<close> puts the four columns side by side; all four carry
  the index \<open>0..n-1\<close> of the frame read from the file, so row \<open>i\<close> of the result is
  made of the \<open>i\<close>-th entries.
\<close>

type_synonym bed_row = "string \<times> int \<times> int \<times> string"

definition bed :: "bim_row list \<Rightarrow> bed_row list" where
  "bed immuno_bim =
     zip (tmp_chr_str5 immuno_bim)
       (zip (map bp immuno_bim)
         (zip (map (\<lambda>p. wrap_int64 (p + 1)) (map bp immuno_bim))
           (map snp_id immuno_bim)))"

text \<open>The four replacements applied to one label, in the order of the cell.\<close>

definition remap_chain :: "string \<Rightarrow> string" where
  "remap_chain c =
     py_replace ''26'' ''MT'' (py_replace ''25'' ''X'' (py_replace ''24'' ''Y'' (py_replace ''23'' ''X'' c)))"

text \<open>
  The interval file as the specification words it: a one-shot table on the chromosome
  label, \<open>stop = start + 1\<close>.
\<close>

definition spec_chrom_table :: "string \<Rightarrow> string" where
  "spec_chrom_table l =
     (if l = ''23'' then ''X'' else if l = ''24'' then ''Y''
      else if l = ''25'' then ''X'' else if l = ''26'' then ''MT'' else l)"

definition spec_bed_row :: "bim_row \<Rightarrow> bed_row" where
  "spec_bed_row r = (''chr'' @ spec_chrom_table (py_str (chrom r)), bp r, bp r + 1, snp_id r)"

definition wf_bed_input :: "bim_row \<Rightarrow> bool" where
  "wf_bed_input r = (wf_chrom (chrom r) \<and> in_int64 (bp r) \<and> bp r \<noteq> 2 ^ 63 - 1)"

section \<open>Samples common to both datasets, SNPs common with HapMap\<close>

text \<open>The six fields of a FAM line (one line per sample).\<close>

record fam_row =
  fid :: string
  iid :: string
  father :: string
  mother :: string
  sex :: string
  pheno :: string

definition immuno_subj :: "fam_row list \<Rightarrow> string list" where
  "immuno_subj immuno_fam = map iid immuno_fam"

definition neurox_subj :: "fam_row list \<Rightarrow> string list" where
  "neurox_subj neurox_fam = map iid neurox_fam"

definition common_subj :: "fam_row list \<Rightarrow> fam_row list \<Rightarrow> string set" where
  "common_subj immuno_fam neurox_fam = set (immuno_subj immuno_fam) \<inter> set (neurox_subj neurox_fam)"

definition hp_snps :: "bim_row list \<Rightarrow> bim_row list \<Rightarrow> string set" where
  "hp_snps ppmi_merge_bim hapmap_bim =
     (let A = set (map snp_id ppmi_merge_bim); B = set (map snp_id hapmap_bim) in A \<inter> B)"

subsection \<open>Enumerating a set\<close>

text \<open>
  \<^verbatim>\<open>list(s)\<close> enumerates a set once each element, in the order of the hash table.
  Python leaves that order unspecified, and for strings it follows hashes salted anew
  for every interpreter process, so a run is described by the enumeration it
  happened to get: \<open>py_list_of_set s xs\<close> says that \<open>xs\<close> is a possible value of
  \<^verbatim>\<open>list(s)\<close>.
\<close>

definition py_list_of_set :: "'a set \<Rightarrow> 'a list \<Rightarrow> bool" where
  "py_list_of_set s xs = (distinct xs \<and> set xs = s)"

text \<open>
  \<^verbatim>\<open>pd.DataFrame(list(s)).to_csv(fn, header=False, index=False)\<close>: one identifier
  per line, in the order of the enumeration. This writes both \<^verbatim>\<open>badsnps.txt\<close> and
  \<^verbatim>\<open>common_snps.txt\<close>.
\<close>

definition id_list_txt :: "string list \<Rightarrow> csv" where
  "id_list_txt listing = to_csv False [''0''] (map (\<lambda>i. [i]) listing)"

section \<open>Sex check\<close>

text \<open>A line of PLINK's \<^verbatim>\<open>.sexcheck\<close> report, under the header PLINK writes.\<close>

record sexcheck_row =
  sc_fid :: string
  sc_iid :: string
  pedsex :: string
  snpsex :: string
  status :: string
  f_coef :: string

definition sexcheck_columns :: "string list" where
  "sexcheck_columns = [''FID'', ''IID'', ''PEDSEX'', ''SNPSEX'', ''STATUS'', ''F'']"

definition sexcheck_cells :: "sexcheck_row \<Rightarrow> string list" where
  "sexcheck_cells r = [sc_fid r, sc_iid r, pedsex r, snpsex r, status r, f_coef r]"

text \<open>
  \<^verbatim>\<open>ppmi_checksex[ppmi_checksex.STATUS == "PROBLEM"].iloc[:,0:2].to_csv(fn, sep=" ", index=False)\<close>:
  the call passes no \<^verbatim>\<open>header\<close> argument.
\<close>

definition subjs_toremove :: "sexcheck_row list \<Rightarrow> csv" where
  "subjs_toremove ppmi_checksex =
     to_csv True (take 2 sexcheck_columns)
       (map (\<lambda>r. take 2 (sexcheck_cells r))
         (filter_stage (\<lambda>r. status r = ''PROBLEM'') ppmi_checksex))"

text \<open>
  Modelled from the spec: PLINK's \<^verbatim>\<open>--remove\<close> is the external tool's filter on
  samples. Every line of the list names a sample by its first two fields (family and
  individual identifier); the output keeps the samples not named, in their order.
\<close>

definition plink_remove :: "csv \<Rightarrow> fam_row list \<Rightarrow> fam_row list" where
  "plink_remove lst fam = filter (\<lambda>s. [fid s, iid s] \<notin> set (map (take 2) lst)) fam"

section \<open>Ambiguous SNPs\<close>

definition bad1 :: "bim_row list \<Rightarrow> bim_row list" where
  "bad1 ppmi_merge_bim = filter_stage (\<lambda>r. a1 r = ''A'' \<and> a2 r = ''T'') ppmi_merge_bim"

definition bad2 :: "bim_row list \<Rightarrow> bim_row list" where
  "bad2 ppmi_merge_bim = filter_stage (\<lambda>r. a1 r = ''T'' \<and> a2 r = ''A'') ppmi_merge_bim"

definition bad3 :: "bim_row list \<Rightarrow> bim_row list" where
  "bad3 ppmi_merge_bim = filter_stage (\<lambda>r. a1 r = ''C'' \<and> a2 r = ''G'') ppmi_merge_bim"

definition bad4 :: "bim_row list \<Rightarrow> bim_row list" where
  "bad4 ppmi_merge_bim = filter_stage (\<lambda>r. a1 r = ''G'' \<and> a2 r = ''C'') ppmi_merge_bim"

definition badSnps :: "bim_row list \<Rightarrow> bim_row list" where
  "badSnps ppmi_merge_bim =
     concat [bad1 ppmi_merge_bim, bad2 ppmi_merge_bim, bad3 ppmi_merge_bim, bad4 ppmi_merge_bim]"

definition badSnps_set :: "bim_row list \<Rightarrow> string set" where
  "badSnps_set ppmi_merge_bim = set (map snp_id (badSnps ppmi_merge_bim))"

text \<open>
  Modelled from the spec: PLINK's \<^verbatim>\<open>--exclude\<close> and \<^verbatim>\<open>--extract\<close> are the
  external tool's filters on variants. The list names variants by identifier; the
  output keeps the variants not named (named, for \<^verbatim>\<open>--extract\<close>), in their order.
\<close>

definition plink_exclude :: "csv \<Rightarrow> bim_row list \<Rightarrow> bim_row list" where
  "plink_exclude lst bim = filter (\<lambda>r. snp_id r \<notin> set (concat lst)) bim"

definition plink_extract :: "csv \<Rightarrow> bim_row list \<Rightarrow> bim_row list" where
  "plink_extract lst bim = filter (\<lambda>r. snp_id r \<in> set (concat lst)) bim"

text \<open>The allele pairs the specification calls ambiguous.\<close>

definition ambiguous :: "bim_row \<Rightarrow> bool" where
  "ambiguous r = ((a1 r, a2 r) \<in> {(''A'', ''T''), (''T'', ''A''), (''C'', ''G''), (''G'', ''C'')})"

section \<open>Genetic ancestry\<close>

text \<open>
  A line of the principal-component file: two identifiers and the components
  \<open>PC1, PC2, ...\<close>. The components are floating-point numbers in the notebook; they
  are reals here. Subtraction of 0, division by 1, the absolute value and the
  comparison with 5 are exact on floating-point numbers, so the reals compute what the
  notebook computes for the reference of the claim; for other references the quotient
  is rounded in the notebook and exact here.
\<close>

record pca_row =
  pca_fid :: string
  pca_iid :: string
  pcs :: "real list"

text \<open>
  \<^verbatim>\<open>(x - ceu_means)/ceu_sds\<close> on the row \<^verbatim>\<open>x\<close> of the columns PC1 to PC5.
\<close>

definition zscore :: "real list \<Rightarrow> real list \<Rightarrow> real list \<Rightarrow> real list" where
  "zscore ceu_means ceu_sds x = map (\<lambda>(v, m, s). (v - m) / s) (zip x (zip ceu_means ceu_sds))"

definition ppmi_ceu_z :: "real list \<Rightarrow> real list \<Rightarrow> pca_row list \<Rightarrow> real list list" where
  "ppmi_ceu_z ceu_means ceu_sds ppmi_pca = map (\<lambda>r. zscore ceu_means ceu_sds (take 5 (pcs r))) ppmi_pca"

text \<open>
  \<^verbatim>\<open>ppmi_ceu_z.apply(lambda x: abs(x) > 5).apply(np.sum,axis=1) == 0\<close>: the number of
  flagged components of each row is compared with 0.
\<close>

definition keep_ppmi :: "real list list \<Rightarrow> bool list" where
  "keep_ppmi z = map (\<lambda>row. (\<Sum>b\<leftarrow>map (\<lambda>v. \<bar>v\<bar> > 5) row. of_bool b) = (0::nat)) z"

definition ppmi_pca_ceu :: "real list \<Rightarrow> real list \<Rightarrow> pca_row list \<Rightarrow> pca_row list" where
  "ppmi_pca_ceu ceu_means ceu_sds ppmi_pca =
     bool_index ppmi_pca (keep_ppmi (ppmi_ceu_z ceu_means ceu_sds ppmi_pca))"

section \<open>Renaming of the variants\<close>

text \<open>
  Modelled from the spec: the rekeying function. The notebook describes the renaming
  (\<^verbatim>\<open>chrom:pos_A1_A2\<close>) and reads files renamed beforehand; the code that renamed
  them is not part of it. The key concatenates the chromosome label, the position and
  both alleles with the separators of that pattern.
\<close>

definition derived_key :: "bim_row \<Rightarrow> string" where
  "derived_key r = py_str (chrom r) @ '':'' @ str_int (bp r) @ ''_'' @ a1 r @ ''_'' @ a2 r"

definition rekey :: "bim_row list \<Rightarrow> bim_row list" where
  "rekey bim = map (\<lambda>r. r\<lparr>snp_id := derived_key r\<rparr>) bim"

definition key_tuple :: "bim_row \<Rightarrow> chrom_code \<times> int \<times> string \<times> string" where
  "key_tuple r = (chrom r, bp r, a1 r, a2 r)"

definition nucleotide :: "string \<Rightarrow> bool" where
  "nucleotide a = (a = ''A'' \<or> a = ''C'' \<or> a = ''G'' \<or> a = ''T'')"

definition wf_variant :: "bim_row \<Rightarrow> bool" where
  "wf_variant r = (wf_chrom (chrom r) \<and> nucleotide (a1 r) \<and> nucleotide (a2 r))"

section \<open>Calls of the external tool\<close>

text \<open>
  A line \<^verbatim>\<open>!plink ...\<close> hands the command to the shell and returns when the command
  has exited. IPython stores the exit status in the variable \<^verbatim>\<open>_exit_code\<close>; the
  line raises nothing, and no cell of the notebook reads the variable. The tool is a
  parameter: from the command line and the files it finds to an exit status and the
  files it leaves. What connects one call to the next are the files: the Python
  statements between two calls read files with \<^verbatim>\<open>pd.read_csv\<close>, which raises
  \<^verbatim>\<open>FileNotFoundError\<close> when the file does not exist, and write lists with
  \<^verbatim>\<open>to_csv\<close>. A file system is the set of the paths that exist; what the files
  hold is the subject of the other sections. \<open>trace\<close> records the commands run, for
  stating what a run did.
\<close>

datatype py_error = FileNotFoundError string

datatype stmt = Shell string | ReadCsv string | WriteCsv string

type_synonym tool = "string \<Rightarrow> string set \<Rightarrow> int \<times> string set"

record kernel =
  files :: "string set"
  exit_code :: int
  trace :: "string list"

definition sh :: "tool \<Rightarrow> string \<Rightarrow> kernel \<Rightarrow> kernel" where
  "sh t cmd k =
     (let (rc, fs) = t cmd (files k)
      in k\<lparr>files := fs, exit_code := rc, trace := trace k @ [cmd]\<rparr>)"

fun exec :: "tool \<Rightarrow> stmt \<Rightarrow> kernel \<Rightarrow> py_error + kernel" where
  "exec t (Shell cmd) k = Inr (sh t cmd k)"
| "exec t (ReadCsv fn) k = (if fn \<in> files k then Inr k else Inl (FileNotFoundError fn))"
| "exec t (WriteCsv fn) k = Inr (k\<lparr>files := insert fn (files k)\<rparr>)"

text \<open>
  The statements are run in the order of the notebook; the run stops at the first
  exception, with the state reached.
\<close>

fun run :: "tool \<Rightarrow> stmt list \<Rightarrow> kernel \<Rightarrow> py_error option \<times> kernel" where
  "run t [] k = (None, k)"
| "run t (s # ss) k =
     (case exec t s k of Inl e \<Rightarrow> (Some e, k) | Inr k' \<Rightarrow> run t ss k')"

fun shell_cmds :: "stmt list \<Rightarrow> string list" where
  "shell_cmds [] = []"
| "shell_cmds (Shell cmd # ss) = cmd # shell_cmds ss"
| "shell_cmds (ReadCsv fn # ss) = shell_cmds ss"
| "shell_cmds (WriteCsv fn # ss) = shell_cmds ss"

subsection \<open>The files and the commands of the notebook\<close>

definition immuno_bim_fn :: string where
  "immuno_bim_fn = ''data/genotyping/IMMUNO/IMMUNO.bim''"

definition neurox_bim_fn :: string where
  "neurox_bim_fn = ''data/genotyping/NEUROX/NEUROX.bim''"

definition immuno_tolift_fn :: string where
  "immuno_tolift_fn = ''data/genotyping/IMMUNO/IMMUNO_tolift.bed''"

definition immuno_lifted_fn :: string where
  "immuno_lifted_fn = ''data/genotyping/IMMUNO/IMMUNO_lifted.bed''"

definition good_snps_fn :: string where
  "good_snps_fn = ''data/genotyping/IMMUNO/good_snps.txt''"

definition immuno_hg19_bim_fn :: string where
  "immuno_hg19_bim_fn = ''data/genotyping/IMMUNO/IMMUNO_hg19.bim''"

definition immuno_hg19_fam_fn :: string where
  "immuno_hg19_fam_fn = ''data/genotyping/IMMUNO/IMMUNO_hg19.fam''"

definition neurox_fam_fn :: string where
  "neurox_fam_fn = ''data/genotyping/NEUROX/NEUROX.fam''"

definition common_subj_fn :: string where
  "common_subj_fn = ''data/genotyping/common_subj.txt''"

definition immuno_renamed_bim_fn :: string where
  "immuno_renamed_bim_fn = ''data/genotyping/IMMUNO/IMMUNO_renamed.bim''"

definition neurox_renamed_bim_fn :: string where
  "neurox_renamed_bim_fn = ''data/genotyping/NEUROX/NEUROX_renamed.bim''"

definition only_immuno_snps_fn :: string where
  "only_immuno_snps_fn = ''data/genotyping/onlyIMMUNOsnps.txt''"

definition mind_fam_fn :: string where
  "mind_fam_fn = ''data/genotyping/PPMI_merge_mind.fam''"

definition sexcheck_fn :: string where
  "sexcheck_fn = ''data/genotyping/PPMI_merge_sexcheck.sexcheck''"

definition subj_problem_fn :: string where
  "subj_problem_fn = ''data/genotyping/subjs_toremove.txt''"

definition hwe_bim_fn :: string where
  "hwe_bim_fn = ''data/genotyping/PPMI_merge_hwe.bim''"

definition badsnps_fn :: string where
  "badsnps_fn = ''data/genotyping/badsnps.txt''"

definition snp_bim_fn :: string where
  "snp_bim_fn = ''data/genotyping/PPMI_merge_snp.bim''"

definition hapmap_bim_fn :: string where
  "hapmap_bim_fn = ''data/genotyping/HapMap3_b37/HM3_b37_renamed.bim''"

definition common_snps_fn :: string where
  "common_snps_fn = ''data/genotyping/common_snps.txt''"

definition eigenvec_fn :: string where
  "eigenvec_fn = ''data/genotyping/PPMI_HM_qc.eigenvec''"

definition ceu_subjs_fn :: string where
  "ceu_subjs_fn = ''data/genotyping/ceu_subjs.txt''"

definition update_map_cmd :: string where
  "update_map_cmd = ''plink --bfile data/genotyping/IMMUNO/IMMUNO --update-map data/genotyping/IMMUNO/IMMUNO_lifted.bed 2 4 --make-bed --extract data/genotyping/IMMUNO/good_snps.txt --out data/genotyping/IMMUNO/IMMUNO_hg19''"

definition keep_immuno_cmd :: string where
  "keep_immuno_cmd = ''plink --bfile data/genotyping/IMMUNO/IMMUNO_hg19 --keep data/genotyping/common_subj.txt --make-bed --out data/genotyping/IMMUNO/IMMUNO_common''"

definition keep_neurox_cmd :: string where
  "keep_neurox_cmd = ''plink --bfile data/genotyping/NEUROX/NEUROX --keep data/genotyping/common_subj.txt --make-bed --out data/genotyping/NEUROX/NEUROX_common''"

definition extract_unique_cmd :: string where
  "extract_unique_cmd = ''plink --bfile data/genotyping/IMMUNO/IMMUNO_renamed --extract data/genotyping/onlyIMMUNOsnps.txt --make-bed --out data/genotyping/IMMUNO/IMMUNO_uniquesnps''"

definition merge_cmd :: string where
  "merge_cmd = ''plink --bfile data/genotyping/NEUROX/NEUROX_renamed --bmerge data/genotyping/IMMUNO/IMMUNO_uniquesnps --make-bed --out data/genotyping/PPMI_merge''"

definition merge_exclude_cmd :: string where
  "merge_exclude_cmd = ''plink --bfile data/genotyping/NEUROX/NEUROX_renamed --bmerge data/genotyping/IMMUNO/IMMUNO_uniquesnps --exclude data/genotyping/merge_rm_snps.txt --make-bed --out data/genotyping/PPMI_merge''"

definition geno_cmd :: string where
  "geno_cmd = ''plink --bfile data/genotyping/PPMI_merge --geno 0.05 --make-bed --out data/genotyping/PPMI_merge_geno''"

definition mind_cmd :: string where
  "mind_cmd = ''plink --bfile data/genotyping/PPMI_merge_geno --mind 0.05 --make-bed --out data/genotyping/PPMI_merge_mind''"

definition check_sex_cmd :: string where
  "check_sex_cmd = ''plink --bfile data/genotyping/PPMI_merge_mind --check-sex --out data/genotyping/PPMI_merge_sexcheck''"

definition remove_cmd :: string where
  "remove_cmd = ''plink --bfile data/genotyping/PPMI_merge_mind --remove data/genotyping/subjs_toremove.txt --make-bed --out data/genotyping/PPMI_merge_qc_subjs''"

definition autosome_cmd :: string where
  "autosome_cmd = ''plink --bfile data/genotyping/PPMI_merge_qc_subjs --autosome --make-bed --out data/genotyping/PPMI_merge_autosome''"

definition maf_cmd :: string where
  "maf_cmd = ''plink --bfile data/genotyping/PPMI_merge_autosome --maf 0.01 --make-bed --out data/genotyping/PPMI_merge_maf''"

definition hwe_cmd :: string where
  "hwe_cmd = ''plink --bfile data/genotyping/PPMI_merge_maf --hwe 1e-6 --make-bed --out data/genotyping/PPMI_merge_hwe''"

definition exclude_bad_cmd :: string where
  "exclude_bad_cmd = ''plink --bfile data/genotyping/PPMI_merge_hwe --exclude data/genotyping/badsnps.txt --make-bed --out data/genotyping/PPMI_merge_snp''"

definition hm_merge_cmd :: string where
  "hm_merge_cmd = ''plink --bfile data/genotyping/PPMI_merge_snp --bmerge data/genotyping/HapMap3_b37/HM3_b37_renamed --extract data/genotyping/common_snps.txt --make-bed --out data/genotyping/PPMI_HM ''"

definition hm_merge_exclude_cmd :: string where
  "hm_merge_exclude_cmd = ''plink --bfile data/genotyping/PPMI_merge_snp --bmerge data/genotyping/HapMap3_b37/HM3_b37_renamed --exclude data/genotyping/merge_rm_snps.txt --extract data/genotyping/common_snps.txt --make-bed --out data/genotyping/PPMI_HM ''"

definition hm_qc_cmd :: string where
  "hm_qc_cmd = ''plink --bfile data/genotyping/PPMI_HM --geno 0.1 --maf 0.05 --make-bed --out data/genotyping/PPMI_HM_qc''"

definition hm_pca_cmd :: string where
  "hm_pca_cmd = ''plink --bfile data/genotyping/PPMI_HM_qc --pca 20 --out data/genotyping/PPMI_HM_qc ''"

definition keep_ceu_cmd :: string where
  "keep_ceu_cmd = ''plink --bfile data/genotyping/PPMI_merge_snp --keep data/genotyping/ceu_subjs.txt --make-bed --out data/genotyping/PPMI_merge_ceu''"

definition keep_rnaseq_cmd :: string where
  "keep_rnaseq_cmd = ''plink --bfile data/genotyping/PPMI_merge_ceu --keep data/pheno/rnaseq_subjs.txt --make-bed --out data/genotyping/PPMI_merge_final ''"

definition final_pca_cmd :: string where
  "final_pca_cmd = ''plink --bfile data/genotyping/PPMI_merge_final  --pca 20 --out data/genotyping/PPMI_merge_final ''"

subsection \<open>The cells, in the order of the notebook\<close>

definition glimpse_cells :: "stmt list" where
  "glimpse_cells = [ReadCsv immuno_bim_fn, ReadCsv neurox_bim_fn]"

definition liftover_cells :: "stmt list" where
  "liftover_cells =
     [WriteCsv immuno_tolift_fn, ReadCsv immuno_lifted_fn, WriteCsv good_snps_fn,
      Shell update_map_cmd, ReadCsv immuno_hg19_bim_fn]"

definition common_subj_cells :: "stmt list" where
  "common_subj_cells =
     [ReadCsv immuno_hg19_fam_fn, ReadCsv neurox_fam_fn, WriteCsv common_subj_fn,
      Shell keep_immuno_cmd, Shell keep_neurox_cmd]"

definition unique_snps_cells :: "stmt list" where
  "unique_snps_cells =
     [ReadCsv immuno_renamed_bim_fn, ReadCsv neurox_renamed_bim_fn, WriteCsv only_immuno_snps_fn,
      Shell extract_unique_cmd]"

text \<open>
  Four consecutive cells that consist of one call each: the merge, the merge with the
  exclusion list, and the two missingness filters.
\<close>

definition merge_qc_cells :: "stmt list" where
  "merge_qc_cells = [Shell merge_cmd, Shell merge_exclude_cmd, Shell geno_cmd, Shell mind_cmd]"

definition sex_check_cells :: "stmt list" where
  "sex_check_cells =
     [ReadCsv mind_fam_fn, Shell check_sex_cmd, ReadCsv sexcheck_fn, WriteCsv subj_problem_fn,
      Shell remove_cmd]"

definition snp_qc_cells :: "stmt list" where
  "snp_qc_cells =
     [Shell autosome_cmd, Shell maf_cmd, Shell hwe_cmd, ReadCsv hwe_bim_fn, WriteCsv badsnps_fn,
      Shell exclude_bad_cmd]"

definition ancestry_cells :: "stmt list" where
  "ancestry_cells =
     [ReadCsv snp_bim_fn, ReadCsv hapmap_bim_fn, WriteCsv common_snps_fn, Shell hm_merge_cmd,
      Shell hm_merge_exclude_cmd, Shell hm_qc_cmd, Shell hm_pca_cmd, ReadCsv eigenvec_fn,
      WriteCsv ceu_subjs_fn, Shell keep_ceu_cmd]"

definition final_cells :: "stmt list" where
  "final_cells = [Shell keep_rnaseq_cmd, Shell final_pca_cmd]"

definition notebook :: "stmt list" where
  "notebook =
     glimpse_cells @ liftover_cells @ common_subj_cells @ unique_snps_cells @ merge_qc_cells @
     sex_check_cells @ snp_qc_cells @ ancestry_cells @ final_cells"

text \<open>A tool that fails on every call: exit status 1, no file touched.\<close>

definition failing_tool :: tool where
  "failing_tool cmd fs = (1, fs)"

text \<open>
  The input files of the notebook: the two datasets, the lifted positions, the renamed
  datasets and the HapMap reference.
\<close>

definition input_files :: "string set" where
  "input_files =
     {immuno_bim_fn, neurox_bim_fn, immuno_lifted_fn, neurox_fam_fn, immuno_renamed_bim_fn,
      neurox_renamed_bim_fn, hapmap_bim_fn}"

definition fresh_kernel :: kernel where
  "fresh_kernel = \<lparr>files = input_files, exit_code = 0, trace = []\<rparr>"

section \<open>The files a run writes\<close>

text \<open>
  Modelled from the spec: PLINK's \<^verbatim>\<open>--keep\<close> is the external tool's filter on
  samples. Every line of the list names a sample by its first two fields; the output
  keeps the samples named, in their order.
\<close>

definition plink_keep :: "csv \<Rightarrow> fam_row list \<Rightarrow> fam_row list" where
  "plink_keep lst fam = filter (\<lambda>s. [fid s, iid s] \<in> set (map (take 2) lst)) fam"

text \<open>
  \<^verbatim>\<open>bed.to_csv(fn, sep="\t", index=False, header=False)\<close>: the two integer columns
  are written in decimal.
\<close>

definition immuno_tolift_bed :: "bim_row list \<Rightarrow> csv" where
  "immuno_tolift_bed immuno_bim =
     to_csv False [''0'', ''3'', ''3'', ''1'']
       (map (\<lambda>(c, start, stop, name). [c, str_int start, str_int stop, name]) (bed immuno_bim))"

text \<open>\<^verbatim>\<open>bed_lifted.iloc[:,3].to_csv(fn, index=False, header=False)\<close>\<close>

definition good_snps :: "bed_row list \<Rightarrow> csv" where
  "good_snps bed_lifted = to_csv False [''3''] (map (\<lambda>(c, start, stop, name). [name]) bed_lifted)"

text \<open>
  \<^verbatim>\<open>pd.DataFrame(list(zip(common_subj, common_subj)), columns=["FID", "IID"])\<close>: both
  arguments of \<^verbatim>\<open>zip\<close> enumerate the same set, in the same order.
\<close>

definition common_subj_txt :: "string list \<Rightarrow> csv" where
  "common_subj_txt listing =
     to_csv False [''FID'', ''IID''] (map (\<lambda>(f, i). [f, i]) (zip listing listing))"

text \<open>
  \<^verbatim>\<open>immuno_bim[~immuno_bim[1].isin(neurox_snpids_set)].iloc[:,1].to_csv(fn, header=False, index=False)\<close>
\<close>

definition only_immuno_snps :: "bim_row list \<Rightarrow> bim_row list \<Rightarrow> csv" where
  "only_immuno_snps immuno_bim neurox_bim =
     (let neurox_snpids_set = set (map snp_id neurox_bim)
      in to_csv False [''1'']
           (map (\<lambda>r. [snp_id r]) (filter_stage (\<lambda>r. snp_id r \<notin> neurox_snpids_set) immuno_bim)))"

text \<open>
  The frames a run reads, and the orders in which the three sets of the notebook
  happened to be enumerated in that run.
\<close>

record frames =
  immuno_bim_0 :: "bim_row list"
  bed_lifted :: "bed_row list"
  immuno_fam :: "fam_row list"
  neurox_fam :: "fam_row list"
  immuno_renamed_bim :: "bim_row list"
  neurox_renamed_bim :: "bim_row list"
  ppmi_checksex :: "sexcheck_row list"
  ppmi_hwe_bim :: "bim_row list"
  ppmi_snp_bim :: "bim_row list"
  hapmap_bim :: "bim_row list"

record set_orders =
  common_subj_order :: "string list"
  badSnps_order :: "string list"
  hp_snps_order :: "string list"

definition possible_orders :: "frames \<Rightarrow> set_orders \<Rightarrow> bool" where
  "possible_orders fr ord =
     (py_list_of_set (common_subj (immuno_fam fr) (neurox_fam fr)) (common_subj_order ord) \<and>
      py_list_of_set (badSnps_set (ppmi_hwe_bim fr)) (badSnps_order ord) \<and>
      py_list_of_set (hp_snps (ppmi_snp_bim fr) (hapmap_bim fr)) (hp_snps_order ord))"

record written =
  w_immuno_tolift :: csv
  w_good_snps :: csv
  w_common_subj :: csv
  w_only_immuno_snps :: csv
  w_subjs_toremove :: csv
  w_badsnps :: csv
  w_common_snps :: csv

definition written_files :: "frames \<Rightarrow> set_orders \<Rightarrow> written" where
  "written_files fr ord =
     \<lparr>w_immuno_tolift = immuno_tolift_bed (immuno_bim_0 fr),
      w_good_snps = good_snps (bed_lifted fr),
      w_common_subj = common_subj_txt (common_subj_order ord),
      w_only_immuno_snps = only_immuno_snps (immuno_renamed_bim fr) (neurox_renamed_bim fr),
      w_subjs_toremove = subjs_toremove (ppmi_checksex fr),
      w_badsnps = id_list_txt (badSnps_order ord),
      w_common_snps = id_list_txt (hp_snps_order ord)\<rparr>"

section \<open>Concrete inputs\<close>

definition variant :: "string \<Rightarrow> string \<Rightarrow> string \<Rightarrow> bim_row" where
  "variant i x y = \<lparr>chrom = ChrInt 1, snp_id = i, cm = ''0'', bp = 1000, a1 = x, a2 = y\<rparr>"

definition on_chrom :: "chrom_code \<Rightarrow> string \<Rightarrow> int \<Rightarrow> bim_row" where
  "on_chrom c i p = \<lparr>chrom = c, snp_id = i, cm = ''0'', bp = p, a1 = ''A'', a2 = ''C''\<rparr>"

definition remap_scenario_bim :: "bim_row list" where
  "remap_scenario_bim =
     [on_chrom (ChrInt 23) ''v1'' 100, on_chrom (ChrInt 24) ''v2'' 200, on_chrom (ChrInt 25) ''v3'' 300,
      on_chrom (ChrInt 26) ''v4'' 400, on_chrom (ChrInt 7) ''v5'' 500]"

definition liftover_example_bim :: "bim_row list" where
  "liftover_example_bim =
     [on_chrom (ChrInt 1) ''rs9729550'' 1125105, on_chrom (ChrInt 26) ''mt73'' 73,
      on_chrom (ChrName ''XY'') ''rs306910'' 2700157]"

definition scenario_fam :: "fam_row list" where
  "scenario_fam =
     [\<lparr>fid = ''FAM1'', iid = ''S1'', father = ''0'', mother = ''0'', sex = ''1'', pheno = ''2''\<rparr>,
      \<lparr>fid = ''FAM2'', iid = ''S2'', father = ''0'', mother = ''0'', sex = ''2'', pheno = ''1''\<rparr>]"

definition scenario_sexcheck :: "sexcheck_row list" where
  "scenario_sexcheck =
     [\<lparr>sc_fid = ''FAM1'', sc_iid = ''S1'', pedsex = ''1'', snpsex = ''2'', status = ''PROBLEM'', f_coef = ''0.1''\<rparr>,
      \<lparr>sc_fid = ''FAM2'', sc_iid = ''S2'', pedsex = ''2'', snpsex = ''2'', status = ''OK'', f_coef = ''0.0''\<rparr>]"

definition scenario_bim :: "bim_row list" where
  "scenario_bim =
     [variant ''rs1'' ''A'' ''T'', variant ''rs2'' ''T'' ''A'', variant ''rs3'' ''C'' ''G'',
      variant ''rs4'' ''G'' ''C'', variant ''rs5'' ''A'' ''C'']"

definition two_ambiguous_bim :: "bim_row list" where
  "two_ambiguous_bim = [variant ''rs1'' ''A'' ''T'', variant ''rs2'' ''C'' ''G'']"

definition scenario_hapmap_bim :: "bim_row list" where
  "scenario_hapmap_bim = [variant ''rs2'' ''T'' ''A'', variant ''rs5'' ''A'' ''C'', variant ''rs9'' ''A'' ''G'']"

definition pca_example :: "pca_row list" where
  "pca_example =
     [\<lparr>pca_fid = ''PPMI'', pca_iid = ''3001'', pcs = [0.5, -1, 2, 4.9, -5, 12]\<rparr>,
      \<lparr>pca_fid = ''PPMI'', pca_iid = ''3002'', pcs = [0, 0, -5.5, 0, 0, 0]\<rparr>,
      \<lparr>pca_fid = ''PPMI'', pca_iid = ''3003'', pcs = [0, 0, 0, 0, 7, 0]\<rparr>]"

definition example_fam :: "fam_row list" where
  "example_fam =
     [\<lparr>fid = ''P3001'', iid = ''P3001'', father = ''0'', mother = ''0'', sex = ''1'', pheno = ''2''\<rparr>,
      \<lparr>fid = ''P3002'', iid = ''P3002'', father = ''0'', mother = ''0'', sex = ''2'', pheno = ''1''\<rparr>]"

definition example_frames :: frames where
  "example_frames =
     \<lparr>immuno_bim_0 = liftover_example_bim,
      bed_lifted = [(''chr1'', 1135242, 1135243, ''rs9729550'')],
      immuno_fam = example_fam,
      neurox_fam = rev example_fam,
      immuno_renamed_bim = scenario_bim,
      neurox_renamed_bim = scenario_hapmap_bim,
      ppmi_checksex = scenario_sexcheck,
      ppmi_hwe_bim = two_ambiguous_bim,
      ppmi_snp_bim = scenario_bim,
      hapmap_bim = scenario_hapmap_bim\<rparr>"

definition one_order :: set_orders where
  "one_order =
     \<lparr>common_subj_order = [''P3001'', ''P3002''], badSnps_order = [''rs1'', ''rs2''],
      hp_snps_order = [''rs2'', ''rs5'']\<rparr>"

definition other_order :: set_orders where
  "other_order =
     \<lparr>common_subj_order = [''P3002'', ''P3001''], badSnps_order = [''rs2'', ''rs1''],
      hp_snps_order = [''rs5'', ''rs2'']\<rparr>"

section \<open>Properties of the primitives\<close>

lemma bool_index_map: "bool_index df (map P df) = filter P df"
  unfolding bool_index_def by (induction df) simp_all

lemma filter_stage_filter: "filter_stage P df = filter P df"
  by (simp add: filter_stage_def bool_index_map)

lemma digits_small: "n < 10 \<Longrightarrow> digits n = [digit_char n]"
  by simp

lemma digits_big: "\<not> n < 10 \<Longrightarrow> digits n = digits (n div 10) @ [digit_char (n mod 10)]"
  by simp

declare digits.simps [simp del]

lemma digit_char_inj_table:
  "\<forall>d \<in> set [0..<10]. \<forall>e \<in> set [0..<10]. digit_char d = digit_char e \<longrightarrow> d = e"
  by code_simp

lemma digit_char_inj: "d < 10 \<Longrightarrow> e < 10 \<Longrightarrow> digit_char d = digit_char e \<Longrightarrow> d = e"
  using digit_char_inj_table by simp

lemma digit_char_mem: "d < 10 \<Longrightarrow> digit_char d \<in> set ''0123456789''"
  unfolding digit_char_def by (rule nth_mem) simp

lemma digits_not_Nil: "digits n \<noteq> []"
  by (cases "n < 10") (simp_all add: digits_small digits_big)

lemma set_digits: "set (digits n) \<subseteq> set ''0123456789''"
proof (induction n rule: digits.induct)
  case (1 n)
  show ?case
  proof (cases "n < 10")
    case True
    then show ?thesis using digit_char_mem [of n] by (simp add: digits_small)
  next
    case False
    have "n mod 10 < 10" by simp
    then have "digit_char (n mod 10) \<in> set ''0123456789''" by (rule digit_char_mem)
    with False 1 show ?thesis by (simp add: digits_big)
  qed
qed

text \<open>The decimal numeral determines the number: the last digit and the rest are read off.\<close>

lemma digits_inj: "digits a = digits b \<Longrightarrow> a = b"
proof (induction a arbitrary: b rule: digits.induct)
  case (1 a)
  show ?case
  proof (cases "a < 10")
    case a: True
    show ?thesis
    proof (cases "b < 10")
      case True
      with a "1.prems" show ?thesis by (simp add: digits_small digit_char_inj)
    next
      case False
      with a "1.prems" digits_not_Nil [of "b div 10"] show ?thesis
        by (simp add: digits_small digits_big)
    qed
  next
    case a: False
    show ?thesis
    proof (cases "b < 10")
      case True
      with a "1.prems" digits_not_Nil [of "a div 10"] show ?thesis
        by (simp add: digits_small digits_big)
    next
      case False
      with a "1.prems" have q: "digits (a div 10) = digits (b div 10)"
        and r: "digit_char (a mod 10) = digit_char (b mod 10)"
        by (simp_all add: digits_big)
      from a q have "a div 10 = b div 10" by (rule "1.IH")
      moreover from r have "a mod 10 = b mod 10" by (simp add: digit_char_inj)
      ultimately show ?thesis by (metis div_mult_mod_eq)
    qed
  qed
qed

lemma set_str_int: "set (str_int i) \<subseteq> set ''-0123456789''"
  using set_digits [of "nat i"] set_digits [of "nat (- i)"]
  by (simp add: str_int_def subset_insertI2)

lemma str_int_not_Nil: "str_int i \<noteq> []"
  by (simp add: str_int_def digits_not_Nil)

lemma str_int_inj: "str_int i = str_int j \<Longrightarrow> i = j"
proof -
  assume eq: "str_int i = str_int j"
  have no_minus: "CHR ''-'' \<notin> set (digits n)" for n
    using set_digits [of n] by auto
  have neg_pos: "CHR ''-'' # digits m \<noteq> digits n" for m n
    using no_minus [of n] by (metis list.set_intros(1))
  show ?thesis
  proof (cases "i < 0")
    case i: True
    show ?thesis
    proof (cases "j < 0")
      case True
      with i eq have "nat (- i) = nat (- j)" by (simp add: str_int_def digits_inj)
      with i True show ?thesis by simp
    next
      case False
      with i eq neg_pos show ?thesis by (simp add: str_int_def)
    qed
  next
    case i: False
    show ?thesis
    proof (cases "j < 0")
      case True
      with i eq neg_pos [of "nat (- j)" "nat i"] show ?thesis by (simp add: str_int_def)
    next
      case False
      with i eq have "nat i = nat j" by (simp add: str_int_def digits_inj)
      with i False show ?thesis by simp
    qed
  qed
qed

section \<open>The interval file for liftover: properties\<close>

lemma remap_chain_codes:
  "\<forall>n \<in> set [0..26]. remap_chain (''chr'' @ str_int n) = ''chr'' @ spec_chrom_table (str_int n)"
  by code_simp

lemma remap_chain_names:
  "\<forall>s \<in> set [''X'', ''Y'', ''XY'', ''MT'']. remap_chain (''chr'' @ s) = ''chr'' @ spec_chrom_table s"
  by code_simp

lemma remap_chain_wf:
  assumes "wf_chrom c"
  shows "remap_chain (''chr'' @ py_str c) = ''chr'' @ spec_chrom_table (py_str c)"
proof (cases c)
  case (ChrInt n)
  with assms have "n \<in> set [0..26]" by simp
  then have "remap_chain (''chr'' @ str_int n) = ''chr'' @ spec_chrom_table (str_int n)"
    by (rule remap_chain_codes [THEN bspec])
  with ChrInt show ?thesis by (simp only: py_str.simps)
next
  case (ChrName s)
  with assms have "s \<in> set [''X'', ''Y'', ''XY'', ''MT'']" by simp
  then have "remap_chain (''chr'' @ s) = ''chr'' @ spec_chrom_table s"
    by (rule remap_chain_names [THEN bspec])
  with ChrName show ?thesis by (simp only: py_str.simps)
qed

lemma tmp_chr_str5_eq:
  "tmp_chr_str5 bim = map (\<lambda>r. remap_chain (''chr'' @ py_str (chrom r))) bim"
  by (simp add: tmp_chr_str5_def tmp_chr_str4_def tmp_chr_str3_def tmp_chr_str2_def
      tmp_chr_str_def remap_chain_def)

lemma wrap_int64_succ: "in_int64 p \<Longrightarrow> p \<noteq> 2 ^ 63 - 1 \<Longrightarrow> wrap_int64 (p + 1) = p + 1"
  by (simp add: in_int64_def wrap_int64_def)

lemma zip4_map:
  "zip (map f xs) (zip (map g xs) (zip (map h xs) (map k xs))) = map (\<lambda>x. (f x, g x, h x, k x)) xs"
  by (induction xs) simp_all

lemma bed_rows:
  "bed bim =
     map (\<lambda>r. (remap_chain (''chr'' @ py_str (chrom r)), bp r, wrap_int64 (bp r + 1), snp_id r)) bim"
  by (simp add: bed_def tmp_chr_str5_eq comp_def zip4_map del: append.simps)

text \<open>
  C1. The remapping gives every chromosome label of the frame a label (the column it
  returns is as long as the column it was given), and the four sequential replacements
  send \<open>chr23, chr24, chr25, chr26, chr7\<close> to \<open>chrX, chrY, chrX, chrMT, chr7\<close>, both
  applied to the five strings and applied by the cell to a frame with the chromosome
  codes 23, 24, 25, 26 and 7.
\<close>

theorem chromosome_remap_scenario:
  "length (tmp_chr_str5 immuno_bim) = length immuno_bim \<and>
   map remap_chain [''chr23'', ''chr24'', ''chr25'', ''chr26'', ''chr7''] =
     [''chrX'', ''chrY'', ''chrX'', ''chrMT'', ''chr7''] \<and>
   tmp_chr_str remap_scenario_bim = [''chr23'', ''chr24'', ''chr25'', ''chr26'', ''chr7''] \<and>
   tmp_chr_str5 remap_scenario_bim = [''chrX'', ''chrY'', ''chrX'', ''chrMT'', ''chr7'']"
proof -
  have "length (tmp_chr_str5 immuno_bim) = length immuno_bim"
    by (simp add: tmp_chr_str5_eq)
  moreover have "map remap_chain [''chr23'', ''chr24'', ''chr25'', ''chr26'', ''chr7''] =
      [''chrX'', ''chrY'', ''chrX'', ''chrMT'', ''chr7'']"
    by code_simp
  moreover have "tmp_chr_str remap_scenario_bim = [''chr23'', ''chr24'', ''chr25'', ''chr26'', ''chr7'']"
    by code_simp
  moreover have "tmp_chr_str5 remap_scenario_bim = [''chrX'', ''chrY'', ''chrX'', ''chrMT'', ''chr7'']"
    by code_simp
  ultimately show ?thesis by (intro conjI)
qed

text \<open>
  C5. For a frame of variant records whose chromosome is a code of the data model and
  whose position is an \<^verbatim>\<open>int64\<close> below the largest one, the interval file has one
  row per variant, in the order of the frame: the row of the variant consists of
  \<open>chr\<close> followed by the chromosome label (23, 24, 25 and 26 replaced by X, Y, X and
  MT), the position, the position plus one, and the identifier.
\<close>

theorem bed_matches_spec:
  assumes "\<forall>r \<in> set immuno_bim. wf_bed_input r"
  shows "bed immuno_bim = map spec_bed_row immuno_bim"
  unfolding bed_rows using assms
  by (auto simp: spec_bed_row_def wf_bed_input_def remap_chain_wf wrap_int64_succ
      simp del: append.simps)

theorem bed_matches_spec_witness:
  "list_all wf_bed_input liftover_example_bim \<and>
   bed liftover_example_bim =
     [(''chr1'', 1125105, 1125106, ''rs9729550''), (''chrMT'', 73, 74, ''mt73''),
      (''chrXY'', 2700157, 2700158, ''rs306910'')]"
proof -
  have wf: "list_all wf_bed_input liftover_example_bim"
    by (simp add: liftover_example_bim_def on_chrom_def wf_bed_input_def in_int64_def)
  then have "\<forall>r \<in> set liftover_example_bim. wf_bed_input r"
    by (simp add: list_all_iff)
  then have "bed liftover_example_bim = map spec_bed_row liftover_example_bim"
    by (rule bed_matches_spec)
  also have "\<dots> = [(''chr1'', 1125105, 1125106, ''rs9729550''), (''chrMT'', 73, 74, ''mt73''),
      (''chrXY'', 2700157, 2700158, ''rs306910'')]"
    by code_simp
  finally show ?thesis using wf by simp
qed

section \<open>Row selection: properties\<close>

text \<open>
  C6. For every frame and every predicate, the rows selected by the boolean mask of
  the predicate are at most as many as the rows of the frame, are exactly the rows of
  the frame that satisfy the predicate, in the order of the frame (the list
  \<open>filter P df\<close>), and selecting again with the same predicate changes nothing.
\<close>

theorem filter_stage_contract:
  "length (filter_stage P df) \<le> length df \<and>
   filter_stage P df = filter P df \<and>
   filter_stage P (filter_stage P df) = filter_stage P df"
  by (simp add: filter_stage_filter)

section \<open>Intersections: properties\<close>

text \<open>
  C7. The set of common SNPs and the set of common samples, intersected again with
  the second set of identifiers, are unchanged, and they do not depend on the order
  of the two datasets.
\<close>

theorem intersection_idem_comm:
  "hp_snps p h \<inter> set (map snp_id h) = hp_snps p h \<and>
   hp_snps p h = hp_snps h p \<and>
   common_subj a b \<inter> set (neurox_subj b) = common_subj a b \<and>
   common_subj a b = common_subj b a"
  by (auto simp: hp_snps_def common_subj_def immuno_subj_def neurox_subj_def Let_def)

section \<open>Sex check: the removal list of the scenario\<close>

text \<open>
  C2. On the scenario of the claim (samples S1 of FAM1 and S2 of FAM2, S1 flagged
  \<open>PROBLEM\<close>) the removal list written by the cell has two lines: the column names
  \<open>FID IID\<close> and the pair \<open>FAM1 S1\<close>. PLINK reads the first as one more sample to
  remove; the filter on the scenario still keeps S2 only.
\<close>

theorem subjs_toremove_scenario:
  "subjs_toremove scenario_sexcheck = [[''FID'', ''IID''], [''FAM1'', ''S1'']] \<and>
   map iid (plink_remove (subjs_toremove scenario_sexcheck) scenario_fam) = [''S2'']"
  by (simp add: subjs_toremove_def scenario_sexcheck_def scenario_fam_def plink_remove_def
      to_csv_def sexcheck_columns_def sexcheck_cells_def filter_stage_filter)

section \<open>Ambiguous SNPs: properties\<close>

lemma set_badSnps: "set (badSnps bim) = {r \<in> set bim. ambiguous r}"
  by (auto simp: badSnps_def bad1_def bad2_def bad3_def bad4_def filter_stage_filter ambiguous_def)

lemma concat_id_list_txt: "concat (id_list_txt listing) = listing"
  by (induction listing) (simp_all add: id_list_txt_def to_csv_def)

text \<open>
  C4. The records selected as bad are exactly the records of the frame whose allele
  pair is (A,T), (T,A), (C,G) or (G,C). The exclusion goes through the identifiers:
  in a dataset whose identifiers are unique (the invariant of the data model),
  whatever the order in which the set of bad identifiers was written, PLINK's
  exclusion keeps exactly the records whose pair is none of the four, in their order.
  On the five records of the claim the first four are excluded and the fifth is kept.
\<close>

theorem ambiguous_filter:
  assumes "distinct (map snp_id bim)" and "py_list_of_set (badSnps_set bim) listing"
  shows "set (badSnps bim) = {r \<in> set bim. ambiguous r} \<and>
         plink_exclude (id_list_txt listing) bim = filter (\<lambda>r. \<not> ambiguous r) bim"
proof -
  from assms(1) have inj: "inj_on snp_id (set bim)"
    by (simp add: distinct_map)
  from assms(2) have listing: "set listing = snp_id ` {r \<in> set bim. ambiguous r}"
    by (simp add: py_list_of_set_def badSnps_set_def set_badSnps)
  have "(snp_id r \<notin> set listing) = (\<not> ambiguous r)" if "r \<in> set bim" for r
    using that inj listing by (auto dest: inj_onD)
  then have "filter (\<lambda>r. snp_id r \<notin> set listing) bim = filter (\<lambda>r. \<not> ambiguous r) bim"
    by (simp cong: filter_cong)
  then show ?thesis
    by (simp add: plink_exclude_def concat_id_list_txt set_badSnps)
qed

theorem ambiguous_filter_witness:
  "distinct (map snp_id scenario_bim) \<and>
   py_list_of_set (badSnps_set scenario_bim) [''rs1'', ''rs2'', ''rs3'', ''rs4''] \<and>
   badSnps scenario_bim = take 4 scenario_bim \<and>
   plink_exclude (id_list_txt [''rs1'', ''rs2'', ''rs3'', ''rs4'']) scenario_bim = drop 4 scenario_bim"
proof -
  have d: "distinct (map snp_id scenario_bim)"
    by (simp add: scenario_bim_def variant_def)
  have b: "badSnps scenario_bim = take 4 scenario_bim"
    by (simp add: badSnps_def bad1_def bad2_def bad3_def bad4_def filter_stage_filter
        scenario_bim_def variant_def)
  have l: "py_list_of_set (badSnps_set scenario_bim) [''rs1'', ''rs2'', ''rs3'', ''rs4'']"
    unfolding py_list_of_set_def badSnps_set_def b
    by (simp add: scenario_bim_def variant_def)
  have "filter (\<lambda>r. \<not> ambiguous r) scenario_bim = drop 4 scenario_bim"
    by (simp add: scenario_bim_def variant_def ambiguous_def)
  with ambiguous_filter [OF d l] d l b show ?thesis by simp
qed

section \<open>Genetic ancestry: properties\<close>

lemma zscore_unit_ref:
  "length x \<le> n \<Longrightarrow> zscore (replicate n 0) (replicate n 1) x = x"
  unfolding zscore_def
proof (induction x arbitrary: n)
  case Nil
  show ?case by simp
next
  case (Cons v x)
  then obtain k where "n = Suc k" by (cases n) auto
  with Cons show ?case by simp
qed

lemma flagged_count_zero:
  "((\<Sum>b\<leftarrow>map (\<lambda>v. \<bar>v\<bar> > 5) row. of_bool b) = (0::nat)) = (\<not> (\<exists>v \<in> set row. \<bar>v::real\<bar> > 5))"
  by (induction row) auto

lemma ppmi_pca_ceu_filter:
  "ppmi_pca_ceu ms sds ppmi_pca =
     filter (\<lambda>r. \<not> (\<exists>z \<in> set (zscore ms sds (take 5 (pcs r))). \<bar>z\<bar> > 5)) ppmi_pca"
  by (simp add: ppmi_pca_ceu_def keep_ppmi_def ppmi_ceu_z_def comp_def flagged_count_zero
      bool_index_map del: of_bool_eq_0_iff)

text \<open>
  C3. The samples kept are the rows of the frame, unchanged and in their order, none
  of whose first five z-scores exceeds 5 in absolute value; a sample is dropped if and
  only if one of them does. With the reference mean 0 and standard deviation 1 for the
  five components, the z-scores are the component values themselves, so a sample is
  dropped if and only if one of its first five components exceeds 5 in absolute value.
\<close>

theorem zscore_outlier_filter:
  "ppmi_pca_ceu ms sds ppmi_pca =
     filter (\<lambda>r. \<not> (\<exists>z \<in> set (zscore ms sds (take 5 (pcs r))). \<bar>z\<bar> > 5)) ppmi_pca \<and>
   ppmi_ceu_z (replicate 5 0) (replicate 5 1) ppmi_pca = map (\<lambda>r. take 5 (pcs r)) ppmi_pca \<and>
   ppmi_pca_ceu (replicate 5 0) (replicate 5 1) ppmi_pca =
     filter (\<lambda>r. \<not> (\<exists>v \<in> set (take 5 (pcs r)). \<bar>v\<bar> > 5)) ppmi_pca"
  by (simp add: ppmi_pca_ceu_filter ppmi_ceu_z_def zscore_unit_ref)

text \<open>
  An example: the first sample stays (its fifth component is \<open>-5\<close>, which does not
  exceed 5, and its sixth component is not looked at), the other two go.
\<close>

theorem zscore_outlier_filter_witness:
  "ppmi_pca_ceu (replicate 5 0) (replicate 5 1) pca_example =
     [\<lparr>pca_fid = ''PPMI'', pca_iid = ''3001'', pcs = [0.5, -1, 2, 4.9, -5, 12]\<rparr>]"
proof -
  have "ppmi_pca_ceu (replicate 5 0) (replicate 5 1) pca_example =
      filter (\<lambda>r. \<not> (\<exists>v \<in> set (take 5 (pcs r)). \<bar>v\<bar> > 5)) pca_example"
    using zscore_outlier_filter [of "replicate 5 0" "replicate 5 1" pca_example] by (elim conjE)
  also have "\<dots> = [\<lparr>pca_fid = ''PPMI'', pca_iid = ''3001'', pcs = [0.5, -1, 2, 4.9, -5, 12]\<rparr>]"
    by (simp add: pca_example_def)
  finally show ?thesis .
qed

section \<open>Renaming of the variants: properties\<close>

lemma name_not_number:
  assumes "wf_chrom (ChrName s)"
  shows "str_int n \<noteq> s"
proof
  assume eq: "str_int n = s"
  from assms have "hd s \<in> set ''XYM''" by auto
  moreover from eq have "hd s \<in> set (str_int n)"
    using str_int_not_Nil [of n] hd_in_set [of "str_int n"] by simp
  then have "hd s \<in> set ''-0123456789''"
    using set_str_int [of n] by (rule set_mp [rotated])
  ultimately show False by auto
qed

lemma py_str_inj: "wf_chrom c \<Longrightarrow> wf_chrom d \<Longrightarrow> py_str c = py_str d \<Longrightarrow> c = d"
proof (cases c; cases d)
  fix n m assume "c = ChrInt n" "d = ChrInt m" "py_str c = py_str d"
  then show "c = d" using str_int_inj [of n m] by simp
next
  fix s t assume "c = ChrName s" "d = ChrName t" "py_str c = py_str d"
  then show "c = d" by simp
next
  fix n s assume "c = ChrInt n" "d = ChrName s" "wf_chrom d" "py_str c = py_str d"
  then show "c = d" using name_not_number [of s n] by simp
next
  fix n s assume "d = ChrInt n" "c = ChrName s" "wf_chrom c" "py_str c = py_str d"
  then show "c = d" using name_not_number [of s n] by simp
qed

lemma py_str_no_colon: "wf_chrom c \<Longrightarrow> CHR '':'' \<notin> set (py_str c)"
  using set_str_int by (cases c) auto

lemma str_int_no_underscore: "CHR ''_'' \<notin> set (str_int i)"
  using set_str_int [of i] by auto

lemma split_at_sep:
  "x \<notin> set u \<Longrightarrow> x \<notin> set u' \<Longrightarrow> u @ x # v = u' @ x # v' \<Longrightarrow> u = u' \<and> v = v'"
proof (induction u arbitrary: u')
  case Nil
  then show ?case by (cases u') auto
next
  case (Cons a u)
  then show ?case by (cases u') auto
qed

lemma nucleotide_length: "nucleotide a \<Longrightarrow> length a = 1"
  by (auto simp: nucleotide_def)

text \<open>
  C8. For variant records of the data model (a chromosome code of the model, alleles
  that are one of the letters A, C, G, T) the derived key depends on chromosome,
  position and alleles only, and two records have the same key exactly when they have
  the same chromosome, position and alleles.
\<close>

theorem derived_key_injective:
  assumes "wf_variant r" and "wf_variant r'"
  shows "(derived_key r = derived_key r') = (key_tuple r = key_tuple r')"
proof
  assume "key_tuple r = key_tuple r'"
  then show "derived_key r = derived_key r'"
    by (simp add: key_tuple_def derived_key_def)
next
  assume "derived_key r = derived_key r'"
  then have eq: "py_str (chrom r) @ CHR '':'' # (str_int (bp r) @ CHR ''_'' # (a1 r @ ''_'' @ a2 r)) =
      py_str (chrom r') @ CHR '':'' # (str_int (bp r') @ CHR ''_'' # (a1 r' @ ''_'' @ a2 r'))"
    by (simp add: derived_key_def)
  from assms have c: "CHR '':'' \<notin> set (py_str (chrom r))" "CHR '':'' \<notin> set (py_str (chrom r'))"
    by (simp_all add: wf_variant_def py_str_no_colon)
  from c eq have 12: "py_str (chrom r) = py_str (chrom r') \<and>
      str_int (bp r) @ CHR ''_'' # (a1 r @ ''_'' @ a2 r) =
      str_int (bp r') @ CHR ''_'' # (a1 r' @ ''_'' @ a2 r')"
    by (rule split_at_sep)
  then have 1: "py_str (chrom r) = py_str (chrom r')" ..
  from str_int_no_underscore str_int_no_underscore 12 [THEN conjunct2]
  have 34: "str_int (bp r) = str_int (bp r') \<and> a1 r @ ''_'' @ a2 r = a1 r' @ ''_'' @ a2 r'"
    by (rule split_at_sep)
  then have 3: "str_int (bp r) = str_int (bp r')" and 4: "a1 r @ ''_'' @ a2 r = a1 r' @ ''_'' @ a2 r'"
    by simp_all
  from assms have "length (a1 r) = length (a1 r')"
    by (simp add: wf_variant_def nucleotide_length)
  with 4 have 5: "a1 r = a1 r' \<and> a2 r = a2 r'" by simp
  from 1 assms have "chrom r = chrom r'" by (simp add: wf_variant_def py_str_inj)
  moreover from 3 have "bp r = bp r'" by (rule str_int_inj)
  ultimately show "key_tuple r = key_tuple r'" using 5 by (simp add: key_tuple_def)
qed

theorem derived_key_injective_witness:
  "wf_variant (on_chrom (ChrInt 1) ''rs9729550'' 1135242) \<and>
   wf_variant (on_chrom (ChrInt 1) ''imm_1_1125105'' 1135242) \<and>
   wf_variant (on_chrom (ChrName ''X'') ''rs9729550'' 1135242) \<and>
   derived_key (on_chrom (ChrInt 1) ''rs9729550'' 1135242) = ''1:1135242_A_C'' \<and>
   derived_key (on_chrom (ChrInt 1) ''imm_1_1125105'' 1135242) = ''1:1135242_A_C'' \<and>
   derived_key (on_chrom (ChrName ''X'') ''rs9729550'' 1135242) \<noteq> ''1:1135242_A_C''"
proof -
  let ?a = "on_chrom (ChrInt 1) ''rs9729550'' 1135242"
  let ?b = "on_chrom (ChrInt 1) ''imm_1_1125105'' 1135242"
  let ?c = "on_chrom (ChrName ''X'') ''rs9729550'' 1135242"
  have wf: "wf_variant ?a" "wf_variant ?b" "wf_variant ?c"
    by (simp_all add: wf_variant_def on_chrom_def nucleotide_def)
  have k: "derived_key ?a = ''1:1135242_A_C''"
    by (simp add: derived_key_def on_chrom_def str_int_def digits_big digits_small digit_char_def)
  have "key_tuple ?a = key_tuple ?b" "key_tuple ?a \<noteq> key_tuple ?c"
    by (simp_all add: key_tuple_def on_chrom_def)
  with derived_key_injective [OF wf(1) wf(2)] derived_key_injective [OF wf(1) wf(3)] k
  have "derived_key ?b = ''1:1135242_A_C''" "derived_key ?c \<noteq> ''1:1135242_A_C''"
    by simp_all
  with wf k show ?thesis by (intro conjI)
qed

section \<open>Calls of the external tool: properties\<close>

lemma sh_trace: "trace (sh t cmd k) = trace k @ [cmd]"
  by (simp add: sh_def split: prod.splits)

lemma sh_exit_code: "exit_code (sh t cmd k) = fst (t cmd (files k))"
  by (simp add: sh_def split: prod.splits)

lemma run_Shell: "run t (Shell cmd # rest) k = run t rest (sh t cmd k)"
  by simp

lemma run_ReadCsv:
  "run t (ReadCsv fn # rest) k =
     (if fn \<in> files k then run t rest k else (Some (FileNotFoundError fn), k))"
  by simp

lemma run_WriteCsv: "run t (WriteCsv fn # rest) k = run t rest (k\<lparr>files := insert fn (files k)\<rparr>)"
  by simp

lemma run_calls_only:
  "fst (run t (map Shell cmds) k) = None \<and> trace (snd (run t (map Shell cmds) k)) = trace k @ cmds"
  by (induction cmds arbitrary: k) (simp_all add: sh_trace)

lemma run_trace_prefix: "prefix (trace (snd (run t stmts k))) (trace k @ shell_cmds stmts)"
proof (induction stmts arbitrary: k)
  case Nil
  show ?case by simp
next
  case (Cons s ss)
  show ?case
  proof (cases s)
    case (Shell cmd)
    with Cons [of "sh t cmd k"] show ?thesis by (simp add: sh_trace)
  next
    case (ReadCsv fn)
    with Cons [of k] show ?thesis by simp
  next
    case (WriteCsv fn)
    with Cons [of "k\<lparr>files := insert fn (files k)\<rparr>"] show ?thesis by simp
  qed
qed

text \<open>
  C9, as the notebook has it. A call returns when the tool has exited; it raises
  nothing whatever the exit status, and the statement after it is run on the state
  the call left. The status is stored and nothing else is done with it. Calls with no
  other statement between them are therefore all made, each once and in order, even
  when every one of them fails. In any run every call is made at most once, in the
  order of the notebook: nothing is retried. A run halts where a Python statement
  raises: a \<^verbatim>\<open>pd.read_csv\<close> of a file that does not exist halts it there, so the
  calls behind it are not made; a read that finds its file lets the run go on.
\<close>

theorem exit_status_never_checked:
  "run t (Shell cmd # rest) k = run t rest (sh t cmd k) \<and>
   exit_code (sh t cmd k) = fst (t cmd (files k)) \<and>
   trace (sh t cmd k) = trace k @ [cmd] \<and>
   fst (run t (map Shell cmds) k) = None \<and>
   trace (snd (run t (map Shell cmds) k)) = trace k @ cmds \<and>
   prefix (trace (snd (run t stmts k))) (trace k @ shell_cmds stmts) \<and>
   run t (ReadCsv fn # rest) k =
     (if fn \<in> files k then run t rest k else (Some (FileNotFoundError fn), k))"
  using run_calls_only [of t cmds k] run_trace_prefix [of t stmts k]
  by (simp add: sh_trace sh_exit_code)

lemma paths_differ:
  "sexcheck_fn \<noteq> mind_fam_fn" "immuno_hg19_bim_fn \<notin> insert good_snps_fn (insert immuno_tolift_fn input_files)"
  "immuno_bim_fn \<in> input_files" "neurox_bim_fn \<in> input_files" "immuno_lifted_fn \<in> input_files"
  by (simp_all add: sexcheck_fn_def mind_fam_fn_def input_files_def immuno_hg19_bim_fn_def
      good_snps_fn_def immuno_tolift_fn_def immuno_bim_fn_def neurox_bim_fn_def immuno_lifted_fn_def
      neurox_fam_fn_def immuno_renamed_bim_fn_def neurox_renamed_bim_fn_def hapmap_bim_fn_def)

text \<open>
  With a tool that fails on every call: the sex check leaves no report, the read of
  the report raises and the removal is not called; where a report of an earlier run
  is still there, the read succeeds and the removal is called; the notebook run from
  its input files stops at the first read of an output of the tool.
\<close>

theorem exit_status_never_checked_witness:
  "run failing_tool sex_check_cells \<lparr>files = {mind_fam_fn}, exit_code = 0, trace = []\<rparr> =
     (Some (FileNotFoundError sexcheck_fn),
      \<lparr>files = {mind_fam_fn}, exit_code = 1, trace = [check_sex_cmd]\<rparr>) \<and>
   run failing_tool sex_check_cells \<lparr>files = {mind_fam_fn, sexcheck_fn}, exit_code = 0, trace = []\<rparr> =
     (None, \<lparr>files = {subj_problem_fn, mind_fam_fn, sexcheck_fn}, exit_code = 1,
        trace = [check_sex_cmd, remove_cmd]\<rparr>) \<and>
   run failing_tool notebook fresh_kernel =
     (Some (FileNotFoundError immuno_hg19_bim_fn),
      \<lparr>files = insert good_snps_fn (insert immuno_tolift_fn input_files), exit_code = 1,
        trace = [update_map_cmd]\<rparr>)"
proof -
  let ?k = "\<lparr>files = {mind_fam_fn}, exit_code = 0, trace = []\<rparr>"
  let ?k1 = "\<lparr>files = {mind_fam_fn}, exit_code = 1, trace = [check_sex_cmd]\<rparr>"
  let ?rest = "[ReadCsv sexcheck_fn, WriteCsv subj_problem_fn, Shell remove_cmd]"
  have s: "sh failing_tool check_sex_cmd ?k = ?k1"
    by (simp add: sh_def failing_tool_def)
  have "run failing_tool (Shell check_sex_cmd # ?rest) ?k = run failing_tool ?rest ?k1"
    using exit_status_never_checked [of failing_tool check_sex_cmd ?rest ?k] s by simp
  moreover have "run failing_tool (ReadCsv sexcheck_fn # [WriteCsv subj_problem_fn, Shell remove_cmd]) ?k1 =
      (Some (FileNotFoundError sexcheck_fn), ?k1)"
    using exit_status_never_checked [of failing_tool _ "[WriteCsv subj_problem_fn, Shell remove_cmd]" ?k1 _ _ sexcheck_fn]
      paths_differ(1) by simp
  ultimately have a: "run failing_tool sex_check_cells ?k = (Some (FileNotFoundError sexcheck_fn), ?k1)"
    by (simp add: sex_check_cells_def)
  have b: "run failing_tool sex_check_cells \<lparr>files = {mind_fam_fn, sexcheck_fn}, exit_code = 0, trace = []\<rparr> =
     (None, \<lparr>files = {subj_problem_fn, mind_fam_fn, sexcheck_fn}, exit_code = 1,
        trace = [check_sex_cmd, remove_cmd]\<rparr>)"
    by (simp add: sex_check_cells_def sh_def failing_tool_def)
  have c: "run failing_tool notebook fresh_kernel =
     (Some (FileNotFoundError immuno_hg19_bim_fn),
      \<lparr>files = insert good_snps_fn (insert immuno_tolift_fn input_files), exit_code = 1,
        trace = [update_map_cmd]\<rparr>)"
    using paths_differ
    by (simp add: notebook_def glimpse_cells_def liftover_cells_def fresh_kernel_def sh_def
        failing_tool_def)
  from a b c show ?thesis by (intro conjI)
qed

text \<open>
  C9 as stated fails: when the merge exits with status 1, the three calls of the
  following cells are made all the same, and the run ends without an exception.
\<close>

theorem failed_merge_does_not_halt:
  "fst (failing_tool merge_cmd (files fresh_kernel)) = 1 \<and>
   run failing_tool merge_qc_cells fresh_kernel =
     (None, fresh_kernel\<lparr>exit_code := 1,
        trace := [merge_cmd, merge_exclude_cmd, geno_cmd, mind_cmd]\<rparr>)"
  by (simp add: failing_tool_def merge_qc_cells_def fresh_kernel_def sh_def)

section \<open>The files a run writes: properties\<close>

lemma listing_mset: "py_list_of_set s xs \<Longrightarrow> py_list_of_set s ys \<Longrightarrow> mset xs = mset ys"
  using set_eq_iff_mset_eq_distinct [of xs ys] by (simp add: py_list_of_set_def)

lemma id_list_txt_map: "id_list_txt listing = map (\<lambda>i. [i]) listing"
  by (simp add: id_list_txt_def to_csv_def)

lemma common_subj_txt_map: "common_subj_txt listing = map (\<lambda>i. [i, i]) listing"
  by (simp add: common_subj_txt_def to_csv_def zip_same_conv_map)

lemma listing_files:
  assumes "py_list_of_set s xs" and "py_list_of_set s ys"
  shows "mset (id_list_txt xs) = mset (id_list_txt ys)"
    and "mset (common_subj_txt xs) = mset (common_subj_txt ys)"
    and "distinct (id_list_txt xs)" and "distinct (common_subj_txt xs)"
    and "plink_exclude (id_list_txt xs) bim = plink_exclude (id_list_txt ys) bim"
    and "plink_extract (id_list_txt xs) bim = plink_extract (id_list_txt ys) bim"
    and "plink_keep (common_subj_txt xs) fam = plink_keep (common_subj_txt ys) fam"
proof -
  from assms have m: "mset xs = mset ys" by (rule listing_mset)
  from assms have s: "set xs = set ys" and d: "distinct xs"
    by (simp_all add: py_list_of_set_def)
  from m show "mset (id_list_txt xs) = mset (id_list_txt ys)"
    using arg_cong [of "mset xs" "mset ys" "image_mset (\<lambda>i. [i])"]
    by (simp add: id_list_txt_map)
  from m show "mset (common_subj_txt xs) = mset (common_subj_txt ys)"
    using arg_cong [of "mset xs" "mset ys" "image_mset (\<lambda>i. [i, i])"]
    by (simp add: common_subj_txt_map)
  from d show "distinct (id_list_txt xs)"
    by (simp add: id_list_txt_map distinct_map inj_on_def)
  from d show "distinct (common_subj_txt xs)"
    by (simp add: common_subj_txt_map distinct_map inj_on_def)
  from s show "plink_exclude (id_list_txt xs) bim = plink_exclude (id_list_txt ys) bim"
    by (simp add: plink_exclude_def concat_id_list_txt)
  from s show "plink_extract (id_list_txt xs) bim = plink_extract (id_list_txt ys) bim"
    by (simp add: plink_extract_def concat_id_list_txt)
  from s show "plink_keep (common_subj_txt xs) fam = plink_keep (common_subj_txt ys) fam"
    by (simp add: plink_keep_def common_subj_txt_map comp_def)
qed

text \<open>
  C10, as the notebook has it. Take two runs that read the same frames. The interval
  file, the list of lifted SNPs, the list of the SNPs of IMMUNO only and the removal
  list are written from a frame, in the order of the frame, and are the same in both
  runs. The list of common samples, the list of bad SNPs and the list of common SNPs
  are written by enumerating a set: in both runs they have the same lines, each once,
  in an order that the code does not fix; what PLINK keeps with \<^verbatim>\<open>--keep\<close>,
  \<^verbatim>\<open>--exclude\<close> and \<^verbatim>\<open>--extract\<close> is the same for both.
\<close>

theorem two_runs_written_files:
  assumes "possible_orders fr ord" and "possible_orders fr ord'"
  shows "w_immuno_tolift (written_files fr ord) = w_immuno_tolift (written_files fr ord') \<and>
         w_good_snps (written_files fr ord) = w_good_snps (written_files fr ord') \<and>
         w_only_immuno_snps (written_files fr ord) = w_only_immuno_snps (written_files fr ord') \<and>
         w_subjs_toremove (written_files fr ord) = w_subjs_toremove (written_files fr ord') \<and>
         mset (w_common_subj (written_files fr ord)) = mset (w_common_subj (written_files fr ord')) \<and>
         mset (w_badsnps (written_files fr ord)) = mset (w_badsnps (written_files fr ord')) \<and>
         mset (w_common_snps (written_files fr ord)) = mset (w_common_snps (written_files fr ord')) \<and>
         distinct (w_common_subj (written_files fr ord)) \<and>
         distinct (w_badsnps (written_files fr ord)) \<and>
         distinct (w_common_snps (written_files fr ord)) \<and>
         plink_keep (w_common_subj (written_files fr ord)) fam =
           plink_keep (w_common_subj (written_files fr ord')) fam \<and>
         plink_exclude (w_badsnps (written_files fr ord)) bim =
           plink_exclude (w_badsnps (written_files fr ord')) bim \<and>
         plink_extract (w_common_snps (written_files fr ord)) bim =
           plink_extract (w_common_snps (written_files fr ord')) bim"
proof -
  from assms have
    c: "py_list_of_set (common_subj (immuno_fam fr) (neurox_fam fr)) (common_subj_order ord)"
       "py_list_of_set (common_subj (immuno_fam fr) (neurox_fam fr)) (common_subj_order ord')" and
    b: "py_list_of_set (badSnps_set (ppmi_hwe_bim fr)) (badSnps_order ord)"
       "py_list_of_set (badSnps_set (ppmi_hwe_bim fr)) (badSnps_order ord')" and
    h: "py_list_of_set (hp_snps (ppmi_snp_bim fr) (hapmap_bim fr)) (hp_snps_order ord)"
       "py_list_of_set (hp_snps (ppmi_snp_bim fr) (hapmap_bim fr)) (hp_snps_order ord')"
    by (simp_all add: possible_orders_def)
  show ?thesis
    unfolding written_files_def
    using listing_files(2,4,7) [OF c] listing_files(1,3,5) [OF b] listing_files(1,3,6) [OF h]
    by simp
qed

theorem two_runs_written_files_witness:
  "possible_orders example_frames one_order \<and> possible_orders example_frames other_order \<and>
   w_immuno_tolift (written_files example_frames other_order) =
     [[''chr1'', ''1125105'', ''1125106'', ''rs9729550''], [''chrMT'', ''73'', ''74'', ''mt73''],
      [''chrXY'', ''2700157'', ''2700158'', ''rs306910'']] \<and>
   w_common_subj (written_files example_frames one_order) = [[''P3001'', ''P3001''], [''P3002'', ''P3002'']] \<and>
   w_common_subj (written_files example_frames other_order) = [[''P3002'', ''P3002''], [''P3001'', ''P3001'']] \<and>
   mset (w_common_subj (written_files example_frames one_order)) =
     mset (w_common_subj (written_files example_frames other_order)) \<and>
   plink_keep (w_common_subj (written_files example_frames other_order)) example_fam = example_fam \<and>
   plink_extract (w_common_snps (written_files example_frames other_order)) scenario_bim =
     [variant ''rs2'' ''T'' ''A'', variant ''rs5'' ''A'' ''C'']"
proof -
  have cs: "common_subj example_fam (rev example_fam) = {''P3001'', ''P3002''}"
    by (auto simp: common_subj_def immuno_subj_def neurox_subj_def example_fam_def)
  have bs: "badSnps_set two_ambiguous_bim = {''rs1'', ''rs2''}"
    by (auto simp: badSnps_set_def badSnps_def bad1_def bad2_def bad3_def bad4_def
        filter_stage_filter two_ambiguous_bim_def variant_def)
  have hs: "hp_snps scenario_bim scenario_hapmap_bim = {''rs2'', ''rs5''}"
    by (auto simp: hp_snps_def scenario_bim_def scenario_hapmap_bim_def variant_def)
  have p1: "possible_orders example_frames one_order"
    by (simp add: possible_orders_def example_frames_def one_order_def cs bs hs py_list_of_set_def)
  have p2: "possible_orders example_frames other_order"
    by (auto simp: possible_orders_def example_frames_def other_order_def cs bs hs py_list_of_set_def)
  note t = two_runs_written_files [OF p1 p2, of example_fam scenario_bim]
  have bed1: "w_immuno_tolift (written_files example_frames one_order) =
     [[''chr1'', ''1125105'', ''1125106'', ''rs9729550''], [''chrMT'', ''73'', ''74'', ''mt73''],
      [''chrXY'', ''2700157'', ''2700158'', ''rs306910'']]"
  proof -
    have "bed liftover_example_bim =
        [(''chr1'', 1125105, 1125106, ''rs9729550''), (''chrMT'', 73, 74, ''mt73''),
         (''chrXY'', 2700157, 2700158, ''rs306910'')]"
      by (simp add: bed_rows liftover_example_bim_def on_chrom_def remap_chain_def wrap_int64_def
          str_int_def digits_small digits_big digit_char_def)
    moreover have "map str_int [1125105, 1125106, 73, 74, 2700157, 2700158] =
        [''1125105'', ''1125106'', ''73'', ''74'', ''2700157'', ''2700158'']"
      by (simp add: str_int_def digits_small digits_big digit_char_def)
    ultimately show ?thesis
      by (simp add: written_files_def example_frames_def immuno_tolift_bed_def to_csv_def)
  qed
  have k1: "plink_keep (w_common_subj (written_files example_frames one_order)) example_fam = example_fam"
    by (simp add: written_files_def one_order_def common_subj_txt_map plink_keep_def example_fam_def)
  have x1: "plink_extract (w_common_snps (written_files example_frames one_order)) scenario_bim =
     [variant ''rs2'' ''T'' ''A'', variant ''rs5'' ''A'' ''C'']"
    by (simp add: written_files_def one_order_def plink_extract_def concat_id_list_txt
        scenario_bim_def variant_def)
  have c1: "w_common_subj (written_files example_frames one_order) = [[''P3001'', ''P3001''], [''P3002'', ''P3002'']]"
    by (simp add: written_files_def one_order_def common_subj_txt_map)
  have c2: "w_common_subj (written_files example_frames other_order) = [[''P3002'', ''P3002''], [''P3001'', ''P3001'']]"
    by (simp add: written_files_def other_order_def common_subj_txt_map)
  from t bed1 k1 x1 have
    "w_immuno_tolift (written_files example_frames other_order) =
     [[''chr1'', ''1125105'', ''1125106'', ''rs9729550''], [''chrMT'', ''73'', ''74'', ''mt73''],
      [''chrXY'', ''2700157'', ''2700158'', ''rs306910'']]"
    "mset (w_common_subj (written_files example_frames one_order)) =
     mset (w_common_subj (written_files example_frames other_order))"
    "plink_keep (w_common_subj (written_files example_frames other_order)) example_fam = example_fam"
    "plink_extract (w_common_snps (written_files example_frames other_order)) scenario_bim =
     [variant ''rs2'' ''T'' ''A'', variant ''rs5'' ''A'' ''C'']"
    by simp_all
  with p1 p2 c1 c2 show ?thesis by (intro conjI)
qed

text \<open>
  C10 as stated fails: for a dataset with the two ambiguous SNPs rs1 and rs2, both
  orders are enumerations of the set of bad identifiers, and the two files differ.
\<close>

theorem set_listing_order_differs:
  "py_list_of_set (badSnps_set two_ambiguous_bim) [''rs1'', ''rs2''] \<and>
   py_list_of_set (badSnps_set two_ambiguous_bim) [''rs2'', ''rs1''] \<and>
   id_list_txt [''rs1'', ''rs2''] \<noteq> id_list_txt [''rs2'', ''rs1'']"
proof -
  have s: "badSnps_set two_ambiguous_bim = {''rs1'', ''rs2''}"
    by (auto simp: badSnps_set_def badSnps_def bad1_def bad2_def bad3_def bad4_def
        filter_stage_filter two_ambiguous_bim_def variant_def)
  show ?thesis
    unfolding s by (auto simp: py_list_of_set_def id_list_txt_def to_csv_def)
qed

end
